theory Spec2Isabelle
  imports Complex_Main "HOL-Library.AList" "HOL-Library.Char_ord" "HOL-Library.List_Lexorder"
begin

section \<open>The modulation matrix of TwytchVoiceHandler\<close>

text \<open>
  The voice handler of \<^verbatim>\<open>src/twytch_voice_handler.cpp\<close> owns a graph of processors
  and three registries that the modulation matrix uses: \<^verbatim>\<open>mod_sources\<close> (name to
  Output), \<^verbatim>\<open>mod_destinations\<close> (name to accumulator) and
  \<^verbatim>\<open>modulation_lookup\<close> (scale Value to the Multiply created for it). The fields
  carry the names of the C++ members without the trailing underscore.

  Objects are identified by their address. The processors live in a heap, a list indexed by
  address; \<^verbatim>\<open>new\<close> returns the next address, so a new object differs from every
  object allocated before. An Output is the pair of its processor and its output index.
\<close>

type_synonym ptr = nat
type_synonym Output = "ptr \<times> nat"

datatype proc_kind =
  kValue | kSmoothValue | kMultiply | kVariableAdd | kEnvelope | kOscillator | kStepGenerator

record processor =
  kind :: proc_kind
  inputs :: "Output option list"

text \<open>
  \<^verbatim>\<open>std::map\<close> as an association list with distinct keys: \<^verbatim>\<open>m.count(k)\<close>,
  \<^verbatim>\<open>m[k] = v\<close> and the iteration in key order.
\<close>

type_synonym ('k, 'v) std_map = "('k \<times> 'v) list"

definition count :: "('k, 'v) std_map \<Rightarrow> 'k \<Rightarrow> nat" where
  "count m k = (case map_of m k of None \<Rightarrow> 0 | Some _ \<Rightarrow> 1)"

definition assign :: "'k \<Rightarrow> 'v \<Rightarrow> ('k, 'v) std_map \<Rightarrow> ('k, 'v) std_map" where
  "assign k v m = AList.update k v m"

definition keys_in_order :: "('k::linorder, 'v) std_map \<Rightarrow> 'k list" where
  "keys_in_order m = sort (map fst m)"

record voice =
  heap :: "processor list"
  processors :: "ptr list"
  mod_sources :: "(string, Output) std_map"
  mod_destinations :: "(string, ptr) std_map"
  modulation_lookup :: "(ptr, ptr) std_map"

text \<open>
  \<^verbatim>\<open>MOPO_ASSERT\<close> failing is fatal, as the spec has it: the error
  \<open>AssertionFailed\<close>. Calling a member function
  through a pointer that is null (what \<^verbatim>\<open>operator[]\<close> of a map of pointers yields
  for a key it does not hold) or that is no object of the heap is \<open>InvalidPointer\<close>.
\<close>

datatype error = AssertionFailed | InvalidPointer

definition new_processor :: "proc_kind \<Rightarrow> nat \<Rightarrow> voice \<Rightarrow> ptr \<times> voice" where
  "new_processor k n s =
     (length (heap s), s\<lparr>heap := heap s @ [\<lparr>kind = k, inputs = replicate n None\<rparr>]\<rparr>)"

definition live_object :: "ptr option \<Rightarrow> voice \<Rightarrow> error + ptr" where
  "live_object p s =
     (case p of
        None \<Rightarrow> Inl InvalidPointer
      | Some a \<Rightarrow> if a < length (heap s) then Inr a else Inl InvalidPointer)"

definition and_then :: "error + 'a \<Rightarrow> ('a \<Rightarrow> error + 'b) \<Rightarrow> error + 'b" where
  "and_then r f = (case r of Inl e \<Rightarrow> Inl e | Inr x \<Rightarrow> f x)"

text \<open>
  Modelled from the spec: the processor classes (\<^verbatim>\<open>processor.h\<close>,
  \<^verbatim>\<open>processor_router.h\<close>, \<^verbatim>\<open>operators.h\<close>) are not among the sources.
  \<open>plug\<close> sets one input slot (the first slot of an accumulator that has none yet);
  \<open>plugNext\<close> appends an input to an accumulator
  ("appends it to the accumulator inputs"); \<open>unplug\<close> removes a source from the inputs
  ("removes the multiply node from the accumulator inputs"); \<open>addProcessor\<close> appends to
  the evaluation list and \<open>removeProcessor\<close> removes from it. Each takes the address of
  a live object; a pointer read from a registry goes through \<open>live_object\<close> first.
\<close>

definition update_object :: "ptr \<Rightarrow> (processor \<Rightarrow> processor) \<Rightarrow> voice \<Rightarrow> voice" where
  "update_object p f s = s\<lparr>heap := (heap s)[p := f (heap s ! p)]\<rparr>"

definition plug :: "ptr \<Rightarrow> Output \<Rightarrow> nat \<Rightarrow> voice \<Rightarrow> voice" where
  "plug p src i s =
     update_object p
       (\<lambda>a. a\<lparr>inputs := (inputs a @ replicate (Suc i - length (inputs a)) None)[i := Some src]\<rparr>) s"

definition plugNext :: "ptr \<Rightarrow> ptr \<Rightarrow> voice \<Rightarrow> voice" where
  "plugNext p src s = update_object p (\<lambda>a. a\<lparr>inputs := inputs a @ [Some (src, 0)]\<rparr>) s"

definition unplug :: "ptr \<Rightarrow> ptr \<Rightarrow> voice \<Rightarrow> voice" where
  "unplug p src s =
     update_object p (\<lambda>a. a\<lparr>inputs := filter (\<lambda>x. x \<noteq> Some (src, 0)) (inputs a)\<rparr>) s"

definition addProcessor :: "ptr \<Rightarrow> voice \<Rightarrow> voice" where
  "addProcessor p s = s\<lparr>processors := processors s @ [p]\<rparr>"

definition removeProcessor :: "ptr \<Rightarrow> voice \<Rightarrow> voice" where
  "removeProcessor p s = s\<lparr>processors := removeAll p (processors s)\<rparr>"

text \<open>
  Modelled from the spec: an accumulator (\<^verbatim>\<open>VariableAdd\<close>, absent from the sources)
  sums the values of its inputs; \<open>\<rho>\<close> gives the value each Output holds in the block.
\<close>

definition VariableAdd_sum :: "(Output \<Rightarrow> real) \<Rightarrow> processor \<Rightarrow> real" where
  "VariableAdd_sum \<rho> p =
     sum_list (map (\<lambda>i. case i of None \<Rightarrow> 0 | Some out \<Rightarrow> \<rho> out) (inputs p))"

text \<open>
  Modelled from the spec: the evaluation of a block (\<^verbatim>\<open>process\<close>, not among the
  sources) "is a pure function of current Value contents and upstream Outputs": it rewrites
  the buffers of the Outputs, which are the parameter \<open>\<rho>\<close> above, and leaves the
  graph and the registries, which are all of this state, as they are.
\<close>

definition process :: "voice \<Rightarrow> voice" where
  "process s = s"

subsection \<open>connectModulation, disconnectModulation, createModMatrix\<close>

definition connectModulation :: "string \<Rightarrow> string \<Rightarrow> ptr \<Rightarrow> voice \<Rightarrow> error + voice" where
  "connectModulation frm to scale s0 =
     (if count (mod_sources s0) frm = 0 then Inl AssertionFailed
      else if count (mod_destinations s0) to = 0 then Inl AssertionFailed
      else
        (let (modulation_scale, s) = new_processor kMultiply 2 s0 in
           (case map_of (mod_sources s) frm of
              None \<Rightarrow> Inl InvalidPointer
            | Some src \<Rightarrow>
                (let s = plug modulation_scale src 0 s;
                     s = plug modulation_scale (scale, 0) 1 s
                 in and_then (live_object (map_of (mod_destinations s) to) s) (\<lambda>dest.
                      (let s = plugNext dest modulation_scale s;
                           s = addProcessor modulation_scale s
                       in Inr (s\<lparr>modulation_lookup :=
                                   assign scale modulation_scale (modulation_lookup s)\<rparr>)))))))"

definition disconnectModulation :: "string \<Rightarrow> ptr \<Rightarrow> voice \<Rightarrow> error + voice" where
  "disconnectModulation to scale s0 =
     (if count (modulation_lookup s0) scale = 0 then Inl AssertionFailed
      else
        (case map_of (modulation_lookup s0) scale of
           None \<Rightarrow> Inl InvalidPointer
         | Some m \<Rightarrow>
             (let s = removeProcessor m s0
              in and_then (live_object (map_of (mod_destinations s) to) s) (\<lambda>dest.
                   Inr (unplug dest m s)))))"

definition createModMatrix :: "voice \<Rightarrow> voice" where
  "createModMatrix s =
     (let source_names = [''''] @ keys_in_order (mod_sources s);
          destination_names = [''''] @ keys_in_order (mod_destinations s)
      in s)"

subsection \<open>What the constructor registers\<close>

text \<open>
  Of the constructor and its \<^verbatim>\<open>create\<close> functions, this part of the model keeps the
  statements the matrix depends on, in the order of the source: the allocation of every
  processor that is registered as a modulation source or destination, the base Value plugged
  into slot 0 of an accumulator, \<^verbatim>\<open>addProcessor\<close> for these processors, and the
  assignments to \<^verbatim>\<open>mod_sources_\<close> and \<^verbatim>\<open>mod_destinations_\<close>. The signal
  path that the same functions wire is the subject of the second part of this theory.
  \<^verbatim>\<open>VariableAdd(MAX_MODULATION_CONNECTIONS)\<close> starts with no input.
\<close>

definition register_source :: "string \<Rightarrow> Output \<Rightarrow> voice \<Rightarrow> voice" where
  "register_source name out s = s\<lparr>mod_sources := assign name out (mod_sources s)\<rparr>"

definition register_destination :: "string \<Rightarrow> ptr \<Rightarrow> voice \<Rightarrow> voice" where
  "register_destination name p s = s\<lparr>mod_destinations := assign name p (mod_destinations s)\<rparr>"

definition createArticulation :: "voice \<Rightarrow> voice" where
  "createArticulation s0 =
     (let (amplitude_envelope, s) = new_processor kEnvelope 5 s0;
          s = addProcessor amplitude_envelope s;
          (current_note, s) = new_processor kValue 1 s;
          (max_midi_invert, s) = new_processor kValue 0 s;
          (note_percentage, s) = new_processor kMultiply 2 s;
          s = plug note_percentage (max_midi_invert, 0) 0 s;
          s = plug note_percentage (current_note, 0) 1 s;
          s = addProcessor current_note s;
          s = addProcessor note_percentage s;
          (current_velocity, s) = new_processor kValue 1 s;
          s = addProcessor current_velocity s;
          s = register_source ''amplitude env'' (amplitude_envelope, 0) s;
          s = register_source ''note'' (note_percentage, 0) s;
          s = register_source ''velocity'' (current_velocity, 0) s
      in s)"

definition createOscillators :: "voice \<Rightarrow> voice" where
  "createOscillators s0 =
     (let (midi_mod_sources, s) = new_processor kVariableAdd 0 s0;
          s = addProcessor midi_mod_sources s;
          (cross_mod, s) = new_processor kValue 0 s;
          (cross_mod_sources, s) = new_processor kVariableAdd 0 s;
          s = plug cross_mod_sources (cross_mod, 0) 0 s;
          s = addProcessor cross_mod_sources s;
          (oscillator_mix_amount, s) = new_processor kValue 0 s;
          (osc_mix_sources, s) = new_processor kVariableAdd 0 s;
          s = plug osc_mix_sources (oscillator_mix_amount, 0) 0 s;
          s = addProcessor osc_mix_sources s;
          (lfo1, s) = new_processor kOscillator 3 s;
          s = addProcessor lfo1 s;
          (lfo2, s) = new_processor kOscillator 3 s;
          s = addProcessor lfo2 s;
          (step_sequencer, s) = new_processor kStepGenerator 2 s;
          s = addProcessor step_sequencer s;
          s = register_source ''step sequencer'' (step_sequencer, 0) s;
          s = register_source ''lfo 1'' (lfo1, 0) s;
          s = register_source ''lfo 2'' (lfo2, 0) s;
          s = register_destination ''cross modulation'' cross_mod_sources s;
          s = register_destination ''pitch'' midi_mod_sources s;
          s = register_destination ''osc mix'' osc_mix_sources s
      in s)"

definition createFilter :: "voice \<Rightarrow> voice" where
  "createFilter s0 =
     (let (filter_envelope, s) = new_processor kEnvelope 5 s0;
          s = addProcessor filter_envelope s;
          (cutoff_mod_sources, s) = new_processor kVariableAdd 0 s;
          (resonance, s) = new_processor kValue 0 s;
          (resonance_sources, s) = new_processor kVariableAdd 0 s;
          s = plug resonance_sources (resonance, 0) 0 s;
          s = addProcessor cutoff_mod_sources s;
          s = addProcessor resonance_sources s;
          s = register_source ''filter env'' (filter_envelope, 0) s;
          s = register_destination ''cutoff'' cutoff_mod_sources s;
          s = register_destination ''resonance'' resonance_sources s
      in s)"

definition TwytchVoiceHandler :: voice where
  "TwytchVoiceHandler =
     (let s = \<lparr>heap = [], processors = [], mod_sources = [], mod_destinations = [],
               modulation_lookup = []\<rparr>;
          (mod_wheel_amount, s) = new_processor kSmoothValue 0 s;
          (pitch_wheel_amount, s) = new_processor kSmoothValue 0 s;
          s = register_source ''pitch wheel'' (pitch_wheel_amount, 0) s;
          s = register_source ''mod wheel'' (mod_wheel_amount, 0) s;
          s = createArticulation s;
          s = createOscillators s;
          s = createFilter s;
          s = createModMatrix s
      in s)"

text \<open>
  A Value of the caller, as the scale of a connection: \<^verbatim>\<open>new Value(v)\<close> outside the
  voice handler, on the same heap.
\<close>

definition new_Value :: "voice \<Rightarrow> ptr \<times> voice" where
  "new_Value s = new_processor kValue 0 s"

text \<open>The constructed voice together with one scale Value of the caller, at address 19.\<close>

definition voice_with_scale :: voice where
  "voice_with_scale = snd (new_Value TwytchVoiceHandler)"

subsection \<open>Well-formed states\<close>

text \<open>
  Every pointer held by an input slot, by the evaluation list and by the two name registries
  is the address of an object of the heap: the invariant of a voice whose pointers all come
  from \<^verbatim>\<open>new\<close>.
\<close>

definition valid_inputs :: "voice \<Rightarrow> processor \<Rightarrow> bool" where
  "valid_inputs s p =
     list_all (\<lambda>i. case i of None \<Rightarrow> True | Some out \<Rightarrow> fst out < length (heap s)) (inputs p)"

definition well_formed :: "voice \<Rightarrow> bool" where
  "well_formed s =
     (list_all (valid_inputs s) (heap s) \<and>
      list_all (\<lambda>p. p < length (heap s)) (processors s) \<and>
      list_all (\<lambda>e. fst (snd e) < length (heap s)) (mod_sources s) \<and>
      list_all (\<lambda>e. snd e < length (heap s)) (mod_destinations s))"

section \<open>The signal path wired by the constructor\<close>

text \<open>
  The \<^verbatim>\<open>create\<close> functions wire processors with \<^verbatim>\<open>plug\<close>. Each processor
  whose output is a function of its inputs in the same block is embedded as that function,
  under the name of the C++ variable that holds it; its arguments are the values of the
  Outputs plugged into it (a control is the current content of its Value, an accumulator
  takes the values of the inputs that the matrix has connected to it). Processors with memory
  (oscillators, envelopes, the filter, the delay) appear through the values they put out or
  through the inputs plugged into them.
\<close>

subsection \<open>Operators and constants\<close>

text \<open>
  Modelled from the spec: \<^verbatim>\<open>operators.h\<close> and \<^verbatim>\<open>utils.h\<close> are not among the
  sources. Add and Multiply are the sum and the product of their two inputs, VariableAdd the
  sum of all its inputs, Clamp limits its input to the two bounds it was constructed with,
  Interpolate is the linear interpolation from \<open>kFrom\<close> to \<open>kTo\<close> at
  \<open>kFractional\<close>, Inverse is the reciprocal, and \<^verbatim>\<open>utils::value_half\<close> is the
  constant one half ("a fixed 50% wet/dry mix").
\<close>

definition Add :: "real \<Rightarrow> real \<Rightarrow> real" where
  "Add a b = a + b"

definition Multiply :: "real \<Rightarrow> real \<Rightarrow> real" where
  "Multiply a b = a * b"

definition VariableAdd :: "real list \<Rightarrow> real" where
  "VariableAdd xs = sum_list xs"

definition Interpolate :: "real \<Rightarrow> real \<Rightarrow> real \<Rightarrow> real" where
  "Interpolate frm to fractional = frm + fractional * (to - frm)"

text \<open>
  A \<^verbatim>\<open>mopo_float\<close> is a floating-point number: besides the finite numbers it has the
  two infinities and NaN. Where a claim depends on these special values the model computes
  with the type \<open>mopo_float\<close> below: the special values follow the rules of IEEE 754
  (infinity minus infinity and zero times infinity are NaN, every comparison with NaN is
  false); the arithmetic of finite numbers is taken as exact, so rounding and overflow are
  left out, and so is the sign of a zero.
\<close>

datatype mopo_float = Finite real | PlusInfinity | MinusInfinity | NaN

fun fneg :: "mopo_float \<Rightarrow> mopo_float" where
  "fneg (Finite a) = Finite (- a)"
| "fneg PlusInfinity = MinusInfinity"
| "fneg MinusInfinity = PlusInfinity"
| "fneg NaN = NaN"

fun fadd :: "mopo_float \<Rightarrow> mopo_float \<Rightarrow> mopo_float" where
  "fadd NaN y = NaN"
| "fadd x NaN = NaN"
| "fadd (Finite a) (Finite b) = Finite (a + b)"
| "fadd PlusInfinity MinusInfinity = NaN"
| "fadd MinusInfinity PlusInfinity = NaN"
| "fadd PlusInfinity y = PlusInfinity"
| "fadd x PlusInfinity = PlusInfinity"
| "fadd MinusInfinity y = MinusInfinity"
| "fadd x MinusInfinity = MinusInfinity"

definition fsub :: "mopo_float \<Rightarrow> mopo_float \<Rightarrow> mopo_float" where
  "fsub x y = fadd x (fneg y)"

fun fmul :: "mopo_float \<Rightarrow> mopo_float \<Rightarrow> mopo_float" where
  "fmul NaN y = NaN"
| "fmul x NaN = NaN"
| "fmul (Finite a) (Finite b) = Finite (a * b)"
| "fmul (Finite a) y =
     (if a = 0 then NaN else if 0 < a then y else fneg y)"
| "fmul x (Finite b) =
     (if b = 0 then NaN else if 0 < b then x else fneg x)"
| "fmul PlusInfinity y = y"
| "fmul MinusInfinity y = fneg y"

fun fless :: "mopo_float \<Rightarrow> mopo_float \<Rightarrow> bool" where
  "fless NaN y = False"
| "fless x NaN = False"
| "fless (Finite a) (Finite b) = (a < b)"
| "fless x MinusInfinity = False"
| "fless MinusInfinity y = True"
| "fless PlusInfinity y = False"
| "fless x PlusInfinity = True"

text \<open>
  Modelled from the spec, as the operators above: the accumulator, the clamp and the
  interpolation on \<open>mopo_float\<close> values (the oscillator mix runs on them), and the
  reciprocal of a finite frequency, which is infinite at 0. The spec says what Clamp does
  with numbers; a NaN input fails both comparisons and passes through.
\<close>

definition VariableAdd_float :: "mopo_float list \<Rightarrow> mopo_float" where
  "VariableAdd_float xs = foldl fadd (Finite 0) xs"

definition Clamp :: "mopo_float \<Rightarrow> mopo_float \<Rightarrow> mopo_float \<Rightarrow> mopo_float" where
  "Clamp lo hi x = (if fless x lo then lo else if fless hi x then hi else x)"

definition Interpolate_float :: "mopo_float \<Rightarrow> mopo_float \<Rightarrow> mopo_float \<Rightarrow> mopo_float" where
  "Interpolate_float frm to fractional = fadd frm (fmul fractional (fsub to frm))"

definition Inverse :: "real \<Rightarrow> mopo_float" where
  "Inverse x = (if x = 0 then PlusInfinity else Finite (1 / x))"

definition value_half :: real where
  "value_half = 1 / 2"

text \<open>The \<^verbatim>\<open>#define\<close>s of the two source files.\<close>

definition PITCH_MOD_RANGE :: real where
  "PITCH_MOD_RANGE = 12"

definition MIN_GAIN_DB :: real where
  "MIN_GAIN_DB = - 24"

definition MAX_GAIN_DB :: real where
  "MAX_GAIN_DB = 24"

definition MAX_FEEDBACK_SAMPLES :: nat where
  "MAX_FEEDBACK_SAMPLES = 20000"

text \<open>
  \<^verbatim>\<open>MIDI_SIZE\<close> is declared outside the sources and is a parameter here, an integer
  constant: \<^verbatim>\<open>MIDI_SIZE / 2\<close> and \<^verbatim>\<open>-MIDI_SIZE / 2\<close> are integer divisions,
  which truncate towards zero. The scales \<^verbatim>\<open>MidiScale\<close>, \<^verbatim>\<open>ResonanceScale\<close>
  and \<^verbatim>\<open>MagnitudeScale\<close> are parameters too: functions from the input value to the
  output value.
\<close>

subsection \<open>createOscillators of src/twytch_voice_handler.cpp\<close>

definition pitch_bend :: "real \<Rightarrow> real \<Rightarrow> real" where
  "pitch_bend pitch_wheel_amount pitch_bend_range = Multiply pitch_wheel_amount pitch_bend_range"

definition bent_midi :: "real \<Rightarrow> real \<Rightarrow> real \<Rightarrow> real" where
  "bent_midi midi pitch_wheel_amount pitch_bend_range =
     Add midi (pitch_bend pitch_wheel_amount pitch_bend_range)"

definition midi_mod_sources :: "real list \<Rightarrow> real" where
  "midi_mod_sources mods = VariableAdd mods"

definition midi_mod :: "real list \<Rightarrow> real" where
  "midi_mod mods = Multiply PITCH_MOD_RANGE (midi_mod_sources mods)"

definition final_midi :: "real \<Rightarrow> real \<Rightarrow> real \<Rightarrow> real list \<Rightarrow> real" where
  "final_midi midi pitch_wheel_amount pitch_bend_range mods =
     Add (bent_midi midi pitch_wheel_amount pitch_bend_range) (midi_mod mods)"

definition oscillator1_frequency :: "(real \<Rightarrow> real) \<Rightarrow> real \<Rightarrow> real" where
  "oscillator1_frequency MidiScale final_midi_out = MidiScale final_midi_out"

definition oscillator2_transposed :: "real \<Rightarrow> real \<Rightarrow> real" where
  "oscillator2_transposed final_midi_out oscillator2_transpose =
     Add final_midi_out oscillator2_transpose"

definition oscillator2_midi :: "real \<Rightarrow> real \<Rightarrow> real \<Rightarrow> real" where
  "oscillator2_midi final_midi_out oscillator2_transpose oscillator2_tune =
     Add (oscillator2_transposed final_midi_out oscillator2_transpose) oscillator2_tune"

definition oscillator2_frequency :: "(real \<Rightarrow> real) \<Rightarrow> real \<Rightarrow> real \<Rightarrow> real \<Rightarrow> real" where
  "oscillator2_frequency MidiScale final_midi_out oscillator2_transpose oscillator2_tune =
     MidiScale (oscillator2_midi final_midi_out oscillator2_transpose oscillator2_tune)"

definition osc_mix_sources :: "mopo_float \<Rightarrow> mopo_float list \<Rightarrow> mopo_float" where
  "osc_mix_sources oscillator_mix_amount mods = VariableAdd_float (oscillator_mix_amount # mods)"

definition clamp_mix :: "mopo_float \<Rightarrow> mopo_float" where
  "clamp_mix osc_mix_sources_out = Clamp (Finite 0) (Finite 1) osc_mix_sources_out"


definition osc_feedback_transposed :: "real \<Rightarrow> real \<Rightarrow> real" where
  "osc_feedback_transposed final_midi_out osc_feedback_transpose =
     Add final_midi_out osc_feedback_transpose"

definition osc_feedback_midi :: "real \<Rightarrow> real \<Rightarrow> real \<Rightarrow> real" where
  "osc_feedback_midi final_midi_out osc_feedback_transpose osc_feedback_tune =
     Add (osc_feedback_transposed final_midi_out osc_feedback_transpose) osc_feedback_tune"

definition osc_feedback_frequency :: "(real \<Rightarrow> real) \<Rightarrow> real \<Rightarrow> real \<Rightarrow> real \<Rightarrow> real" where
  "osc_feedback_frequency MidiScale final_midi_out osc_feedback_transpose osc_feedback_tune =
     MidiScale (osc_feedback_midi final_midi_out osc_feedback_transpose osc_feedback_tune)"

definition osc_feedback_period ::
    "(real \<Rightarrow> real) \<Rightarrow> real \<Rightarrow> real \<Rightarrow> real \<Rightarrow> mopo_float" where
  "osc_feedback_period MidiScale final_midi_out osc_feedback_transpose osc_feedback_tune =
     Inverse (osc_feedback_frequency MidiScale final_midi_out osc_feedback_transpose
       osc_feedback_tune)"

text \<open>
  The Delay: the length of its buffer, given to the constructor, and the values plugged into
  its four inputs. \<^verbatim>\<open>new Delay()\<close> of this file names no length: \<open>default_size\<close>.
\<close>

record Delay =
  buffer_size :: nat
  kAudio :: real
  kDelayTime :: mopo_float
  kFeedback :: real
  kWet :: real

definition osc_feedback :: "nat \<Rightarrow> real \<Rightarrow> mopo_float \<Rightarrow> real \<Rightarrow> Delay" where
  "osc_feedback default_size oscillator_mix_out osc_feedback_period_out osc_feedback_amount =
     \<lparr>buffer_size = default_size, kAudio = oscillator_mix_out, kDelayTime = osc_feedback_period_out,
      kFeedback = osc_feedback_amount, kWet = value_half\<rparr>"

subsection \<open>createArticulation and createFilter of src/twytch_voice_handler.cpp\<close>

definition center_adjust :: "nat \<Rightarrow> real" where
  "center_adjust MIDI_SIZE = - real (MIDI_SIZE div 2)"

definition note_from_center :: "nat \<Rightarrow> real \<Rightarrow> real" where
  "note_from_center MIDI_SIZE current_note = Add (center_adjust MIDI_SIZE) current_note"

definition scaled_envelope :: "real \<Rightarrow> real \<Rightarrow> real" where
  "scaled_envelope filter_envelope filter_envelope_depth =
     Multiply filter_envelope filter_envelope_depth"

definition current_keytrack :: "real \<Rightarrow> real \<Rightarrow> real" where
  "current_keytrack keytrack keytrack_amount = Multiply keytrack keytrack_amount"

definition keytracked_cutoff :: "real \<Rightarrow> real \<Rightarrow> real \<Rightarrow> real" where
  "keytracked_cutoff base_cutoff keytrack keytrack_amount =
     Add base_cutoff (current_keytrack keytrack keytrack_amount)"

definition midi_cutoff :: "real \<Rightarrow> real \<Rightarrow> real \<Rightarrow> real \<Rightarrow> real \<Rightarrow> real" where
  "midi_cutoff base_cutoff keytrack keytrack_amount filter_envelope filter_envelope_depth =
     Add (keytracked_cutoff base_cutoff keytrack keytrack_amount)
       (scaled_envelope filter_envelope filter_envelope_depth)"

definition cutoff_mod_sources :: "real list \<Rightarrow> real" where
  "cutoff_mod_sources mods = VariableAdd mods"

definition cutoff_mod_scale :: "nat \<Rightarrow> real" where
  "cutoff_mod_scale MIDI_SIZE = real (MIDI_SIZE div 2)"

definition cutoff_modulation_scaled :: "nat \<Rightarrow> real list \<Rightarrow> real" where
  "cutoff_modulation_scaled MIDI_SIZE mods =
     Multiply (cutoff_mod_sources mods) (cutoff_mod_scale MIDI_SIZE)"

definition midi_cutoff_modulated :: "nat \<Rightarrow> real \<Rightarrow> real list \<Rightarrow> real" where
  "midi_cutoff_modulated MIDI_SIZE midi_cutoff_out mods =
     Add midi_cutoff_out (cutoff_modulation_scaled MIDI_SIZE mods)"

definition frequency_cutoff :: "(real \<Rightarrow> real) \<Rightarrow> real \<Rightarrow> real" where
  "frequency_cutoff MidiScale midi_cutoff_modulated_out = MidiScale midi_cutoff_modulated_out"

definition resonance_sources :: "real \<Rightarrow> real list \<Rightarrow> real" where
  "resonance_sources resonance mods = VariableAdd (resonance # mods)"

definition final_resonance :: "(real \<Rightarrow> real) \<Rightarrow> real \<Rightarrow> real" where
  "final_resonance ResonanceScale resonance_sources_out = ResonanceScale resonance_sources_out"

definition decibals :: "real \<Rightarrow> real" where
  "decibals resonance = Interpolate MIN_GAIN_DB MAX_GAIN_DB resonance"

definition final_gain :: "(real \<Rightarrow> real) \<Rightarrow> real \<Rightarrow> real" where
  "final_gain MagnitudeScale decibals_out = MagnitudeScale decibals_out"

text \<open>
  The values plugged into the inputs of \<^verbatim>\<open>filter_\<close> that carry numbers; its type
  and reset inputs are left out.
\<close>

record Filter =
  kFilterAudio :: real
  kCutoff :: real
  kResonance :: real
  kGain :: real

definition filter_inputs :: "(real \<Rightarrow> real) \<Rightarrow> (real \<Rightarrow> real) \<Rightarrow> (real \<Rightarrow> real) \<Rightarrow> real \<Rightarrow> real
    \<Rightarrow> real \<Rightarrow> real list \<Rightarrow> Filter" where
  "filter_inputs MidiScale ResonanceScale MagnitudeScale saturated_audio midi_cutoff_modulated_out
       resonance mods =
     \<lparr>kFilterAudio = saturated_audio,
      kCutoff = frequency_cutoff MidiScale midi_cutoff_modulated_out,
      kResonance = final_resonance ResonanceScale (resonance_sources resonance mods),
      kGain = final_gain MagnitudeScale (decibals resonance)\<rparr>"

subsection \<open>The same wiring in src/synthesis/twytch_voice_handler.cpp\<close>

text \<open>
  The second source file is another version of the same class. Its definitions carry the
  prefix \<open>synthesis\<close>. A control made by \<^verbatim>\<open>createPolyModControl\<close> (not among the
  sources) enters as the value its processor puts out.
\<close>

definition synthesis_pitch_bend :: "real \<Rightarrow> real \<Rightarrow> real" where
  "synthesis_pitch_bend pitch_wheel_amount pitch_bend_range =
     Multiply pitch_wheel_amount pitch_bend_range"

definition synthesis_bent_midi :: "real \<Rightarrow> real \<Rightarrow> real \<Rightarrow> real" where
  "synthesis_bent_midi midi pitch_wheel_amount pitch_bend_range =
     Add midi (synthesis_pitch_bend pitch_wheel_amount pitch_bend_range)"

definition synthesis_osc_feedback_transposed :: "real \<Rightarrow> real \<Rightarrow> real" where
  "synthesis_osc_feedback_transposed bent_midi_out osc_feedback_transpose =
     Add bent_midi_out osc_feedback_transpose"

definition synthesis_osc_feedback_midi :: "real \<Rightarrow> real \<Rightarrow> real \<Rightarrow> real" where
  "synthesis_osc_feedback_midi bent_midi_out osc_feedback_transpose osc_feedback_tune =
     Add (synthesis_osc_feedback_transposed bent_midi_out osc_feedback_transpose)
       osc_feedback_tune"

definition synthesis_osc_feedback_frequency ::
    "(real \<Rightarrow> real) \<Rightarrow> real \<Rightarrow> real \<Rightarrow> real \<Rightarrow> real" where
  "synthesis_osc_feedback_frequency MidiScale bent_midi_out osc_feedback_transpose
       osc_feedback_tune =
     MidiScale (synthesis_osc_feedback_midi bent_midi_out osc_feedback_transpose
       osc_feedback_tune)"

definition synthesis_osc_feedback_period ::
    "(real \<Rightarrow> real) \<Rightarrow> real \<Rightarrow> real \<Rightarrow> real \<Rightarrow> mopo_float" where
  "synthesis_osc_feedback_period MidiScale bent_midi_out osc_feedback_transpose
       osc_feedback_tune =
     Inverse (synthesis_osc_feedback_frequency MidiScale bent_midi_out osc_feedback_transpose
       osc_feedback_tune)"

definition synthesis_osc_feedback :: "real \<Rightarrow> mopo_float \<Rightarrow> real \<Rightarrow> Delay" where
  "synthesis_osc_feedback oscillator_mix_out osc_feedback_period_out osc_feedback_amount =
     \<lparr>buffer_size = MAX_FEEDBACK_SAMPLES, kAudio = oscillator_mix_out,
      kDelayTime = osc_feedback_period_out, kFeedback = osc_feedback_amount,
      kWet = value_half\<rparr>"

definition synthesis_final_resonance :: "(real \<Rightarrow> real) \<Rightarrow> real \<Rightarrow> real" where
  "synthesis_final_resonance ResonanceScale resonance = ResonanceScale resonance"

definition synthesis_decibals :: "real \<Rightarrow> real" where
  "synthesis_decibals resonance = Interpolate MIN_GAIN_DB MAX_GAIN_DB resonance"

definition synthesis_final_gain :: "(real \<Rightarrow> real) \<Rightarrow> real \<Rightarrow> real" where
  "synthesis_final_gain MagnitudeScale decibals_out = MagnitudeScale decibals_out"

definition synthesis_filter_inputs :: "(real \<Rightarrow> real) \<Rightarrow> (real \<Rightarrow> real) \<Rightarrow> real \<Rightarrow> real
    \<Rightarrow> real \<Rightarrow> Filter" where
  "synthesis_filter_inputs ResonanceScale MagnitudeScale saturated_audio frequency_cutoff_out
       resonance =
     \<lparr>kFilterAudio = saturated_audio,
      kCutoff = frequency_cutoff_out,
      kResonance = synthesis_final_resonance ResonanceScale resonance,
      kGain = synthesis_final_gain MagnitudeScale (synthesis_decibals resonance)\<rparr>"

subsection \<open>The delay line\<close>

text \<open>
  Modelled from the spec: \<^verbatim>\<open>delay.h\<close> is not among the sources. "The delay buffer has
  a hard maximum length; requesting a period longer than the buffer is a clamped condition,
  not an error": the period the delay reads back, in samples, is the delay time times the
  sample rate, and where that is longer than the buffer it is the length of the buffer.
\<close>

definition Delay_period :: "real \<Rightarrow> Delay \<Rightarrow> mopo_float" where
  "Delay_period sample_rate d =
     (let requested = fmul (kDelayTime d) (Finite sample_rate);
          longest = Finite (real (buffer_size d))
      in if fless longest requested then longest else requested)"

text \<open>
  The feedback period as the spec words it (for the comparison with the code): the inverse of
  the frequency of bent MIDI plus feedback transpose plus feedback tune.
\<close>

definition spec_feedback_period :: "(real \<Rightarrow> real) \<Rightarrow> real \<Rightarrow> real \<Rightarrow> real \<Rightarrow> mopo_float" where
  "spec_feedback_period MidiScale bent_midi_out feedback_transpose feedback_tune =
     Inverse (MidiScale (bent_midi_out + feedback_transpose + feedback_tune))"

text \<open>
  The pitch of an oscillator as the spec words it (for the comparison with the code): the
  shared pitch sum, then the oscillator's own transpose and fine-tune, then the conversion.
\<close>

definition spec_oscillator_frequency :: "(real \<Rightarrow> real) \<Rightarrow> real \<Rightarrow> real \<Rightarrow> real \<Rightarrow> real" where
  "spec_oscillator_frequency MidiScale shared_pitch own_transpose own_tune =
     MidiScale (shared_pitch + own_transpose + own_tune)"

text \<open>
  Modelled from the spec: \<^verbatim>\<open>MidiScale\<close> is not among the sources; the spec calls it
  "MIDI-to-frequency conversion (exponential scale)". An exponential scale has the frequency
  \<open>note0\<close> at note 0 and the ratio \<open>semitone\<close> from one note to the next.
\<close>

definition exponential_scale :: "real \<Rightarrow> real \<Rightarrow> real \<Rightarrow> real" where
  "exponential_scale note0 semitone n = note0 * semitone powr n"

subsection \<open>What createOscillators registers for the pitch path\<close>

text \<open>
  The calls of \<^verbatim>\<open>addGlobalProcessor\<close> and \<^verbatim>\<open>addProcessor\<close> and the assignments
  \<^verbatim>\<open>controls_[name] = value\<close> in the sections "Pitch bend", "Oscillator 1" and
  "Oscillator 2" of createOscillators in src/twytch_voice_handler.cpp (lines 72 to 145), in
  the order of the source, each with the C++ variable it registers.
\<close>

datatype registration =
  GlobalProcessor string | Processor string | Control string string

definition createOscillators_registrations :: "registration list" where
  "createOscillators_registrations =
     [GlobalProcessor ''pitch_bend'',
      Processor ''bent_midi'',
      Processor ''midi_mod_sources'',
      Processor ''midi_mod'',
      Processor ''final_midi'',
      Control ''pitch bend range'' ''pitch_bend_range'',
      Processor ''cross_mod_sources'',
      Processor ''oscillator1_frequency'',
      Processor ''oscillators_'',
      Control ''cross modulation'' ''cross_mod'',
      Control ''osc 1 waveform'' ''oscillator1_waveform'',
      Processor ''oscillator2_transposed'',
      Processor ''oscillator2_midi'',
      Processor ''oscillator2_frequency'',
      Control ''osc 2 waveform'' ''oscillator2_waveform'',
      Control ''osc 2 transpose'' ''oscillator2_transpose'',
      Control ''osc 2 tune'' ''oscillator2_tune'']"

fun control_names :: "registration list \<Rightarrow> string list" where
  "control_names [] = []"
| "control_names (Control name v # rs) = name # control_names rs"
| "control_names (r # rs) = control_names rs"

definition controls_of_oscillator :: "string \<Rightarrow> string list" where
  "controls_of_oscillator osc =
     filter (\<lambda>name. take (length osc) name = osc) (control_names createOscillators_registrations)"

fun processor_names :: "registration list \<Rightarrow> string list" where
  "processor_names [] = []"
| "processor_names (Processor name # rs) = name # processor_names rs"
| "processor_names (r # rs) = processor_names rs"

definition processors_of_oscillator :: "string \<Rightarrow> string list" where
  "processors_of_oscillator osc =
     filter (\<lambda>name. take (length osc) name = osc) (processor_names createOscillators_registrations)"

section \<open>Properties of the modulation matrix\<close>

subsection \<open>The constructed voice\<close>


lemmas ctor_defs = TwytchVoiceHandler_def createArticulation_def createOscillators_def
  createFilter_def createModMatrix_def new_processor_def addProcessor_def plug_def
  update_object_def register_source_def register_destination_def assign_def

lemma TwytchVoiceHandler_eval:
  "TwytchVoiceHandler =
     \<lparr>heap =
        [\<lparr>kind = kSmoothValue, inputs = []\<rparr>,
         \<lparr>kind = kSmoothValue, inputs = []\<rparr>,
         \<lparr>kind = kEnvelope, inputs = [None, None, None, None, None]\<rparr>,
         \<lparr>kind = kValue, inputs = [None]\<rparr>,
         \<lparr>kind = kValue, inputs = []\<rparr>,
         \<lparr>kind = kMultiply, inputs = [Some (4, 0), Some (3, 0)]\<rparr>,
         \<lparr>kind = kValue, inputs = [None]\<rparr>,
         \<lparr>kind = kVariableAdd, inputs = []\<rparr>,
         \<lparr>kind = kValue, inputs = []\<rparr>,
         \<lparr>kind = kVariableAdd, inputs = [Some (8, 0)]\<rparr>,
         \<lparr>kind = kValue, inputs = []\<rparr>,
         \<lparr>kind = kVariableAdd, inputs = [Some (10, 0)]\<rparr>,
         \<lparr>kind = kOscillator, inputs = [None, None, None]\<rparr>,
         \<lparr>kind = kOscillator, inputs = [None, None, None]\<rparr>,
         \<lparr>kind = kStepGenerator, inputs = [None, None]\<rparr>,
         \<lparr>kind = kEnvelope, inputs = [None, None, None, None, None]\<rparr>,
         \<lparr>kind = kVariableAdd, inputs = []\<rparr>,
         \<lparr>kind = kValue, inputs = []\<rparr>,
         \<lparr>kind = kVariableAdd, inputs = [Some (17, 0)]\<rparr>],
      processors = [2, 3, 5, 6, 7, 9, 11, 12, 13, 14, 15, 16, 18],
      mod_sources =
        [(''pitch wheel'', 1, 0), (''mod wheel'', 0, 0), (''amplitude env'', 2, 0),
         (''note'', 5, 0), (''velocity'', 6, 0), (''step sequencer'', 14, 0),
         (''lfo 1'', 12, 0), (''lfo 2'', 13, 0), (''filter env'', 15, 0)],
      mod_destinations =
        [(''cross modulation'', 9), (''pitch'', 7), (''osc mix'', 11), (''cutoff'', 16),
         (''resonance'', 18)],
      modulation_lookup = []\<rparr>"
  by (simp add: ctor_defs numeral_eq_Suc)

lemma well_formed_TwytchVoiceHandler: "well_formed TwytchVoiceHandler"
  by (simp add: TwytchVoiceHandler_eval well_formed_def valid_inputs_def)

lemma count_eq_0: "count m k = 0 \<longleftrightarrow> map_of m k = None"
  by (simp add: count_def split: option.splits)

lemma map_of_assign: "map_of (assign k v m) = (map_of m)(k \<mapsto> v)"
  by (simp add: assign_def update_conv')

lemma connectModulation_Inr:
  assumes "map_of (mod_sources s) frm = Some src"
    and "map_of (mod_destinations s) to = Some d"
    and "d < length (heap s)"
  shows "connectModulation frm to scale s =
     Inr (s\<lparr>heap := (heap s)[d := (heap s ! d)\<lparr>inputs := inputs (heap s ! d) @ [Some (length (heap s), 0)]\<rparr>]
                    @ [\<lparr>kind = kMultiply, inputs = [Some src, Some (scale, 0)]\<rparr>],
            processors := processors s @ [length (heap s)],
            modulation_lookup := assign scale (length (heap s)) (modulation_lookup s)\<rparr>)"
  using assms
  by (simp add: connectModulation_def count_eq_0 new_processor_def plug_def plugNext_def
      update_object_def live_object_def and_then_def addProcessor_def nth_append
      list_update_append numeral_2_eq_2)

lemma disconnectModulation_Inr:
  assumes "map_of (modulation_lookup s) scale = Some m"
    and "map_of (mod_destinations s) to = Some d"
    and "d < length (heap s)"
  shows "disconnectModulation to scale s =
     Inr (s\<lparr>processors := removeAll m (processors s),
            heap := (heap s)[d := (heap s ! d)\<lparr>inputs := filter (\<lambda>x. x \<noteq> Some (m, 0)) (inputs (heap s ! d))\<rparr>]\<rparr>)"
  using assms
  by (simp add: disconnectModulation_def count_eq_0 unplug_def update_object_def
      live_object_def and_then_def removeProcessor_def)

lemma connectModulation_assertion:
  "connectModulation frm to scale s = Inl AssertionFailed \<longleftrightarrow>
     map_of (mod_sources s) frm = None \<or> map_of (mod_destinations s) to = None"
  by (auto simp: connectModulation_def count_eq_0 new_processor_def live_object_def
      and_then_def Let_def split: option.splits if_splits)

lemma disconnectModulation_assertion:
  "disconnectModulation to scale s = Inl AssertionFailed \<longleftrightarrow>
     map_of (modulation_lookup s) scale = None"
  by (auto simp: disconnectModulation_def count_eq_0 live_object_def
      and_then_def Let_def split: option.splits if_splits)

lemma disconnectModulation_unknown_destination:
  assumes "map_of (modulation_lookup s) scale = Some m"
    and "map_of (mod_destinations s) to = None"
  shows "disconnectModulation to scale s = Inl InvalidPointer"
  using assms
  by (simp add: disconnectModulation_def count_eq_0 live_object_def and_then_def
      removeProcessor_def)

subsection \<open>Connecting and disconnecting\<close>


lemma filter_fresh:
  assumes "list_all (\<lambda>i. case i of None \<Rightarrow> True | Some out \<Rightarrow> fst out < (n::nat)) xs"
  shows "filter (\<lambda>x. x \<noteq> Some (n, k)) (xs @ [Some (n, k)]) = xs"
  using assms by (induction xs) (auto split: option.splits)

lemma removeAll_fresh:
  assumes "list_all (\<lambda>p. p < (n::nat)) ps"
  shows "removeAll n (ps @ [n]) = ps"
  using assms by (induction ps) auto

lemma well_formed_destination:
  assumes "well_formed s" and "map_of (mod_destinations s) to = Some d"
  shows "d < length (heap s)"
  using assms by (force simp: well_formed_def list_all_iff dest: map_of_SomeD)

text \<open>
  Both operations keep a well-formed voice well-formed, given that the scale is a live
  object; disconnectModulation leaves modulation_lookup as it is.
\<close>

lemma valid_inputs_mono:
  assumes "valid_inputs s p" and "length (heap s) \<le> length (heap s')"
  shows "valid_inputs s' p"
  using assms by (auto simp: valid_inputs_def list_all_iff split: option.splits)

lemma connectModulation_InrD:
  assumes "connectModulation frm to scale s = Inr s'"
  obtains src d where "map_of (mod_sources s) frm = Some src"
    and "map_of (mod_destinations s) to = Some d"
  using assms
  by (auto simp: connectModulation_def count_eq_0 split: option.splits if_splits)

lemma well_formed_connectModulation:
  assumes wf: "well_formed s" and scale: "scale < length (heap s)"
    and c: "connectModulation frm to scale s = Inr s'"
  shows "well_formed s'"
proof -
  from c obtain src d where src: "map_of (mod_sources s) frm = Some src"
    and d0: "map_of (mod_destinations s) to = Some d"
    by (rule connectModulation_InrD)
  note d = d0 well_formed_destination [OF wf d0]
  from wf src have srcv: "fst src < length (heap s)"
    by (force simp: well_formed_def list_all_iff dest: map_of_SomeD)
  have s': "s' = s\<lparr>heap := (heap s)[d := (heap s ! d)\<lparr>inputs := inputs (heap s ! d) @ [Some (length (heap s), 0)]\<rparr>]
                    @ [\<lparr>kind = kMultiply, inputs = [Some src, Some (scale, 0)]\<rparr>],
            processors := processors s @ [length (heap s)],
            modulation_lookup := assign scale (length (heap s)) (modulation_lookup s)\<rparr>"
    using c connectModulation_Inr [OF src d, of scale] by simp
  have len: "length (heap s') = Suc (length (heap s))"
    by (simp add: s')
  have old: "valid_inputs s' p" if "p \<in> set (heap s)" for p
    using wf that by (auto simp: well_formed_def list_all_iff len intro: valid_inputs_mono)
  have "valid_inputs s' p" if "p \<in> set (heap s')" for p
  proof -
    from that consider "p \<in> set (heap s)"
      | "p = (heap s ! d)\<lparr>inputs := inputs (heap s ! d) @ [Some (length (heap s), 0)]\<rparr>"
      | "p = \<lparr>kind = kMultiply, inputs = [Some src, Some (scale, 0)]\<rparr>"
      by (auto simp: s' dest: set_update_subset_insert [THEN subsetD])
    then show ?thesis
    proof cases
      case 1
      then show ?thesis by (rule old)
    next
      case 2
      have "valid_inputs s' (heap s ! d)"
        using d(2) by (intro old) simp
      then show ?thesis
        by (simp add: 2 valid_inputs_def len)
    next
      case 3
      then show ?thesis
        using srcv scale by (simp add: valid_inputs_def len)
    qed
  qed
  then have "list_all (valid_inputs s') (heap s')"
    by (simp add: list_all_iff)
  moreover have "list_all (\<lambda>p. p < length (heap s')) (processors s')"
    using wf unfolding len by (auto simp: s' well_formed_def list_all_iff)
  moreover have "list_all (\<lambda>e. fst (snd e) < length (heap s')) (mod_sources s')"
    using wf unfolding len by (auto simp: s' well_formed_def list_all_iff)
  moreover have "list_all (\<lambda>e. snd e < length (heap s')) (mod_destinations s')"
    using wf unfolding len by (auto simp: s' well_formed_def list_all_iff)
  ultimately show ?thesis
    by (simp add: well_formed_def)
qed

lemma well_formed_disconnectModulation:
  assumes wf: "well_formed s" and c: "disconnectModulation to scale s = Inr s'"
  shows "well_formed s'"
proof -
  from c obtain m d where m: "map_of (modulation_lookup s) scale = Some m"
    and d: "map_of (mod_destinations s) to = Some d" "d < length (heap s)"
    by (auto simp: disconnectModulation_def count_eq_0 live_object_def and_then_def
        removeProcessor_def Let_def split: option.splits if_splits)
  have s': "s' = s\<lparr>processors := removeAll m (processors s),
            heap := (heap s)[d := (heap s ! d)\<lparr>inputs := filter (\<lambda>x. x \<noteq> Some (m, 0)) (inputs (heap s ! d))\<rparr>]\<rparr>"
    using c disconnectModulation_Inr [OF m d] by simp
  have len: "length (heap s') = length (heap s)"
    by (simp add: s')
  have "valid_inputs s' p" if "p \<in> set (heap s')" for p
  proof -
    from that consider "p \<in> set (heap s)"
      | "p = (heap s ! d)\<lparr>inputs := filter (\<lambda>x. x \<noteq> Some (m, 0)) (inputs (heap s ! d))\<rparr>"
      by (auto simp: s' dest: set_update_subset_insert [THEN subsetD])
    then show ?thesis
    proof cases
      case 1
      with wf have "valid_inputs s p"
        by (simp add: well_formed_def list_all_iff)
      then show ?thesis
        by (rule valid_inputs_mono) (simp add: len)
    next
      case 2
      from wf d(2) have "valid_inputs s (heap s ! d)"
        by (simp add: well_formed_def list_all_length)
      then show ?thesis
        unfolding 2 valid_inputs_def len by (auto simp: list_all_iff)
    qed
  qed
  then have "list_all (valid_inputs s') (heap s')"
    by (simp add: list_all_iff)
  moreover have "list_all (\<lambda>p. p < length (heap s')) (processors s')"
    using wf unfolding len by (auto simp: s' well_formed_def list_all_iff)
  moreover have "list_all (\<lambda>e. fst (snd e) < length (heap s')) (mod_sources s')"
    using wf unfolding len by (auto simp: s' well_formed_def list_all_iff)
  moreover have "list_all (\<lambda>e. snd e < length (heap s')) (mod_destinations s')"
    using wf unfolding len by (auto simp: s' well_formed_def list_all_iff)
  ultimately show ?thesis
    by (simp add: well_formed_def)
qed

lemma VariableAdd_sum_VariableAdd:
  "VariableAdd_sum \<rho> p =
     VariableAdd (map (\<lambda>i. case i of None \<Rightarrow> 0 | Some out \<Rightarrow> \<rho> out) (inputs p))"
  by (simp add: VariableAdd_sum_def VariableAdd_def)

lemma disconnectModulation_keeps_lookup:
  assumes "disconnectModulation to scale s = Inr s'"
  shows "modulation_lookup s' = modulation_lookup s"
  using assms
  by (auto simp: disconnectModulation_def live_object_def and_then_def removeProcessor_def
      unplug_def update_object_def Let_def split: option.splits if_splits)

text \<open>
  C2: for a registered source name and a registered destination name, in a well-formed voice,
  connectModulation succeeds and creates exactly one new Multiply, at the next free address,
  whose two inputs are the Output of the source and the Output of the scale Value; it appends
  that node to the inputs of the destination accumulator and to the processor list, and maps
  the scale to it in modulation_lookup. The heap changes nowhere else, and the two name
  registries are unchanged.
\<close>

theorem connectModulation_creates_one_Multiply:
  assumes "well_formed s"
    and "map_of (mod_sources s) frm = Some src"
    and "map_of (mod_destinations s) to = Some d"
  shows "\<exists>s'. connectModulation frm to scale s = Inr s' \<and>
           heap s' = (heap s)[d := (heap s ! d)\<lparr>inputs := inputs (heap s ! d) @ [Some (length (heap s), 0)]\<rparr>]
                       @ [\<lparr>kind = kMultiply, inputs = [Some src, Some (scale, 0)]\<rparr>] \<and>
           processors s' = processors s @ [length (heap s)] \<and>
           map_of (modulation_lookup s') = (map_of (modulation_lookup s))(scale \<mapsto> length (heap s)) \<and>
           mod_sources s' = mod_sources s \<and>
           mod_destinations s' = mod_destinations s"
  using connectModulation_Inr [OF assms(2,3) well_formed_destination [OF assms(1,3)], of scale]
  by (simp add: map_of_assign)

text \<open>
  C1: connectModulation(from, to, scale) followed by disconnectModulation(to, scale) returns
  the destination accumulator's inputs, and hence its sum under the same values of the
  Outputs, to what they were before the connect; the objects allocated before the connect,
  the processor list and the name registries are as before too, whatever number \<open>n\<close> of
  blocks is evaluated in between.
\<close>

theorem connect_then_disconnect_restores:
  assumes "well_formed s"
    and "map_of (mod_sources s) frm = Some src"
    and "map_of (mod_destinations s) to = Some d"
  shows "\<exists>s1 s2. connectModulation frm to scale s = Inr s1 \<and>
           inputs (heap s1 ! d) = inputs (heap s ! d) @ [Some (length (heap s), 0)] \<and>
           disconnectModulation to scale ((process ^^ n) s1) = Inr s2 \<and>
           inputs (heap s2 ! d) = inputs (heap s ! d) \<and>
           VariableAdd_sum \<rho> (heap s2 ! d) = VariableAdd_sum \<rho> (heap s ! d) \<and>
           take (length (heap s)) (heap s2) = heap s \<and>
           processors s2 = processors s \<and>
           mod_sources s2 = mod_sources s \<and>
           mod_destinations s2 = mod_destinations s"
proof -
  let ?m = "length (heap s)"
  have d: "d < length (heap s)"
    by (rule well_formed_destination [OF assms(1,3)])
  from assms(1) d have vi: "valid_inputs s (heap s ! d)"
    by (simp add: well_formed_def list_all_length)
  from assms(1) have ps: "list_all (\<lambda>p. p < ?m) (processors s)"
    by (simp add: well_formed_def)
  define s1 where "s1 = s\<lparr>heap := (heap s)[d := (heap s ! d)\<lparr>inputs := inputs (heap s ! d) @ [Some (?m, 0)]\<rparr>]
                    @ [\<lparr>kind = kMultiply, inputs = [Some src, Some (scale, 0)]\<rparr>],
            processors := processors s @ [?m],
            modulation_lookup := assign scale ?m (modulation_lookup s)\<rparr>"
  have c: "connectModulation frm to scale s = Inr s1"
    unfolding s1_def by (rule connectModulation_Inr [OF assms(2,3) d])
  have l: "map_of (modulation_lookup s1) scale = Some ?m"
    by (simp add: s1_def map_of_assign)
  have dd: "map_of (mod_destinations s1) to = Some d" "d < length (heap s1)"
    using assms(3) d by (simp_all add: s1_def)
  have inp: "inputs (heap s1 ! d) = inputs (heap s ! d) @ [Some (?m, 0)]"
    using d by (simp add: s1_def nth_append)
  have f: "filter (\<lambda>x. x \<noteq> Some (?m, 0)) (inputs (heap s1 ! d)) = inputs (heap s ! d)"
    unfolding inp by (rule filter_fresh) (use vi in \<open>simp add: valid_inputs_def\<close>)
  have r: "removeAll ?m (processors s1) = processors s"
    using removeAll_fresh [OF ps] by (simp add: s1_def)
  define s2 where "s2 = s1\<lparr>processors := removeAll ?m (processors s1),
      heap := (heap s1)[d := (heap s1 ! d)\<lparr>inputs := filter (\<lambda>x. x \<noteq> Some (?m, 0)) (inputs (heap s1 ! d))\<rparr>]\<rparr>"
  have dis: "disconnectModulation to scale s1 = Inr s2"
    unfolding s2_def by (rule disconnectModulation_Inr [OF l dd])
  have h1: "heap s1 ! d = (heap s ! d)\<lparr>inputs := inputs (heap s ! d) @ [Some (?m, 0)]\<rparr>"
    using d by (simp add: s1_def nth_append)
  have h2: "heap s2 = heap s @ [\<lparr>kind = kMultiply, inputs = [Some src, Some (scale, 0)]\<rparr>]"
  proof -
    have "heap s2 = (heap s1)[d := (heap s1 ! d)\<lparr>inputs := inputs (heap s ! d)\<rparr>]"
      by (simp add: s2_def f)
    also have "\<dots> = (heap s1)[d := heap s ! d]"
      by (simp add: h1)
    also have "\<dots> = heap s @ [\<lparr>kind = kMultiply, inputs = [Some src, Some (scale, 0)]\<rparr>]"
      using d by (simp add: s1_def list_update_append)
    finally show ?thesis .
  qed
  have i2: "inputs (heap s2 ! d) = inputs (heap s ! d)"
    using d by (simp add: h2 nth_append)
  have p2: "processors s2 = processors s"
    by (simp add: s2_def r)
  have m2: "mod_sources s2 = mod_sources s" "mod_destinations s2 = mod_destinations s"
    by (simp_all add: s2_def s1_def)
  have "(process ^^ n) s1 = s1"
    by (induction n) (simp_all add: process_def)
  then show ?thesis
    using c inp dis i2 p2 m2 by (simp add: VariableAdd_sum_def h2)
qed



lemma voice_with_scale_eval:
  "voice_with_scale = TwytchVoiceHandler\<lparr>heap := heap TwytchVoiceHandler @ [\<lparr>kind = kValue, inputs = []\<rparr>]\<rparr>"
  by (simp add: voice_with_scale_def new_Value_def new_processor_def)

lemma voice_with_scale_facts:
  "well_formed voice_with_scale"
  "map_of (mod_sources voice_with_scale) ''lfo 1'' = Some (12, 0)"
  "map_of (mod_destinations voice_with_scale) ''cutoff'' = Some 16"
  "length (heap voice_with_scale) = 20"
  "fst (new_Value TwytchVoiceHandler) = 19"
  "inputs (heap voice_with_scale ! 16) = []"
  "processors voice_with_scale = [2, 3, 5, 6, 7, 9, 11, 12, 13, 14, 15, 16, 18]"
  "modulation_lookup voice_with_scale = []"
  by (simp_all add: voice_with_scale_eval TwytchVoiceHandler_eval well_formed_def
      valid_inputs_def new_Value_def new_processor_def)

theorem connectModulation_creates_one_Multiply_witness:
  "well_formed voice_with_scale \<and>
   map_of (mod_sources voice_with_scale) ''lfo 1'' = Some (12, 0) \<and>
   map_of (mod_destinations voice_with_scale) ''cutoff'' = Some 16 \<and>
   (\<exists>s'. connectModulation ''lfo 1'' ''cutoff'' 19 voice_with_scale = Inr s' \<and>
      heap s' ! 20 = \<lparr>kind = kMultiply, inputs = [Some (12, 0), Some (19, 0)]\<rparr> \<and>
      heap s' ! 16 = \<lparr>kind = kVariableAdd, inputs = [Some (20, 0)]\<rparr> \<and>
      processors s' = processors voice_with_scale @ [20] \<and>
      map_of (modulation_lookup s') 19 = Some 20)"
proof -
  note f = voice_with_scale_facts
  from connectModulation_creates_one_Multiply [OF f(1) f(2) f(3), of 19]
  obtain s' where "connectModulation ''lfo 1'' ''cutoff'' 19 voice_with_scale = Inr s'"
    and "heap s' = (heap voice_with_scale)[16 := (heap voice_with_scale ! 16)\<lparr>inputs := inputs (heap voice_with_scale ! 16) @ [Some (length (heap voice_with_scale), 0)]\<rparr>]
                       @ [\<lparr>kind = kMultiply, inputs = [Some (12, 0), Some (19, 0)]\<rparr>]"
    and "processors s' = processors voice_with_scale @ [length (heap voice_with_scale)]"
    and "map_of (modulation_lookup s') = (map_of (modulation_lookup voice_with_scale))(19 \<mapsto> length (heap voice_with_scale))"
    by blast
  then show ?thesis
    using f(1-3) by (simp add: f(4)) (simp add: voice_with_scale_eval TwytchVoiceHandler_eval)
qed

theorem connect_then_disconnect_restores_witness:
  "well_formed voice_with_scale \<and>
   map_of (mod_sources voice_with_scale) ''lfo 1'' = Some (12, 0) \<and>
   map_of (mod_destinations voice_with_scale) ''cutoff'' = Some 16 \<and>
   (\<exists>s1 s2. connectModulation ''lfo 1'' ''cutoff'' 19 voice_with_scale = Inr s1 \<and>
      disconnectModulation ''cutoff'' 19 (process s1) = Inr s2 \<and>
      inputs (heap s1 ! 16) = [Some (20, 0)] \<and>
      inputs (heap s2 ! 16) = [] \<and>
      processors s2 = [2, 3, 5, 6, 7, 9, 11, 12, 13, 14, 15, 16, 18])"
proof -
  note f = voice_with_scale_facts
  from connect_then_disconnect_restores [OF f(1) f(2) f(3), of 19 1]
  obtain s1 s2 where "connectModulation ''lfo 1'' ''cutoff'' 19 voice_with_scale = Inr s1"
    and "inputs (heap s1 ! 16) = inputs (heap voice_with_scale ! 16) @ [Some (length (heap voice_with_scale), 0)]"
    and "disconnectModulation ''cutoff'' 19 ((process ^^ 1) s1) = Inr s2"
    and "inputs (heap s2 ! 16) = inputs (heap voice_with_scale ! 16)"
    and "processors s2 = processors voice_with_scale"
    by blast
  then show ?thesis
    using f(1-3) by (simp add: f(4,6,7))
qed


lemma connected_voice:
  "connectModulation ''lfo 1'' ''cutoff'' 19 voice_with_scale =
     Inr (voice_with_scale
       \<lparr>heap := (heap voice_with_scale)[16 := \<lparr>kind = kVariableAdd, inputs = [Some (20, 0)]\<rparr>]
                 @ [\<lparr>kind = kMultiply, inputs = [Some (12, 0), Some (19, 0)]\<rparr>],
        processors := [2, 3, 5, 6, 7, 9, 11, 12, 13, 14, 15, 16, 18, 20],
        modulation_lookup := [(19, 20)]\<rparr>)"
  using connectModulation_Inr [OF voice_with_scale_facts(2,3), of 19]
  by (simp add: voice_with_scale_facts(4,7,8) assign_def)
    (simp add: voice_with_scale_eval TwytchVoiceHandler_eval)

text \<open>
  C3: connectModulation fails its assertion exactly when a name is unknown, and
  disconnectModulation fails its assertion exactly when the scale is not in
  modulation_lookup (the two lemmas \<open>connectModulation_assertion\<close> and
  \<open>disconnectModulation_assertion\<close>). The claim that every other call completes does
  not hold for disconnectModulation: it asserts nothing about the destination name, and for
  a connected scale and an unknown name it calls unplug through the null pointer that
  \<^verbatim>\<open>mod_destinations_[to]\<close> yields.
\<close>

theorem disconnectModulation_unknown_destination_fails:
  "\<exists>s1. connectModulation ''lfo 1'' ''cutoff'' 19 voice_with_scale = Inr s1 \<and>
      count (modulation_lookup s1) 19 = 1 \<and>
      count (mod_destinations s1) ''volume'' = 0 \<and>
      disconnectModulation ''volume'' 19 s1 = Inl InvalidPointer"
  unfolding connected_voice
  by (simp add: count_def disconnectModulation_def removeProcessor_def live_object_def
      and_then_def voice_with_scale_eval TwytchVoiceHandler_eval)

text \<open>
  C9: modulation_lookup holds a scale exactly while its connection is live. The code never
  erases an entry: after connect and disconnect of scale 19 the scale is still in
  modulation_lookup although its Multiply is in neither the processor list nor the
  accumulator, and a second disconnect of the same scale passes the assertion.
\<close>

theorem modulation_lookup_keeps_disconnected_scale:
  "\<exists>s1 s2. connectModulation ''lfo 1'' ''cutoff'' 19 voice_with_scale = Inr s1 \<and>
      disconnectModulation ''cutoff'' 19 s1 = Inr s2 \<and>
      count (modulation_lookup s2) 19 = 1 \<and>
      20 \<notin> set (processors s2) \<and>
      Some (20, 0) \<notin> set (inputs (heap s2 ! 16)) \<and>
      disconnectModulation ''cutoff'' 19 s2 = Inr s2"
  unfolding connected_voice
  by (simp add: count_def disconnectModulation_def removeProcessor_def live_object_def
      and_then_def unplug_def update_object_def voice_with_scale_eval TwytchVoiceHandler_eval)

text \<open>
  C10: createModMatrix leaves the whole voice state unchanged: the two name lists it
  builds from the registries are locals that are dropped on return.
\<close>

theorem createModMatrix_unchanged: "createModMatrix s = s"
  by (simp add: createModMatrix_def)



section \<open>Properties of the signal path\<close>


lemmas operator_defs = Add_def Multiply_def VariableAdd_def Interpolate_def

lemma Delay_period_within_buffer:
  "\<not> fless (Finite (real (buffer_size d))) (Delay_period sample_rate d)"
  by (cases "fmul (kDelayTime d) (Finite sample_rate)") (simp_all add: Delay_period_def Let_def)

text \<open>
  C4, as amended: the delay time of the oscillator feedback delay is the exact inverse of the
  frequency that MidiScale gives for the feedback pitch: final MIDI (bent MIDI plus the pitch
  accumulator scaled by 12) plus feedback transpose plus feedback tune in
  src/twytch_voice_handler.cpp, bent MIDI plus feedback transpose plus feedback tune in
  src/synthesis/twytch_voice_handler.cpp. Its wet input is one half. The length of its buffer
  is fixed at construction: MAX_FEEDBACK_SAMPLES = 20000 in src/synthesis, the length of the
  default constructor in src/twytch_voice_handler.cpp. For a positive sample rate the period
  the delay reads back is never longer than the buffer: a requested period that is longer,
  the infinite period of frequency 0 included, is clamped to the length of the buffer, and
  any other is read back as requested.
\<close>

theorem osc_feedback_delay:
  assumes "0 < sample_rate"
  shows
  "kDelayTime (osc_feedback default_size mix
      (osc_feedback_period MidiScale (final_midi midi wheel bend_range mods) semitones tune)
      amount) =
     Inverse (MidiScale (midi + wheel * bend_range + 12 * sum_list mods + semitones + tune)) \<and>
   kDelayTime (synthesis_osc_feedback mix
      (synthesis_osc_feedback_period MidiScale (synthesis_bent_midi midi wheel bend_range)
         semitones tune)
      amount) =
     Inverse (MidiScale (midi + wheel * bend_range + semitones + tune)) \<and>
   (x \<noteq> 0 \<longrightarrow> Inverse x = Finite (1 / x)) \<and>
   Inverse 0 = PlusInfinity \<and>
   kWet (osc_feedback default_size mix period amount) = 1 / 2 \<and>
   kWet (synthesis_osc_feedback mix period amount) = 1 / 2 \<and>
   buffer_size (osc_feedback default_size mix period amount) = default_size \<and>
   buffer_size (synthesis_osc_feedback mix period amount) = 20000 \<and>
   \<not> fless (Finite (real (buffer_size d))) (Delay_period sample_rate d) \<and>
   (fless (Finite (real (buffer_size d))) (fmul (kDelayTime d) (Finite sample_rate)) \<longrightarrow>
      Delay_period sample_rate d = Finite (real (buffer_size d))) \<and>
   (\<not> fless (Finite (real (buffer_size d))) (fmul (kDelayTime d) (Finite sample_rate)) \<longrightarrow>
      Delay_period sample_rate d = fmul (kDelayTime d) (Finite sample_rate)) \<and>
   Delay_period sample_rate (synthesis_osc_feedback mix (Inverse 0) amount) = Finite 20000 \<and>
   Delay_period sample_rate (osc_feedback default_size mix (Inverse 0) amount) =
     Finite (real default_size)"
proof -
  have 1: "kDelayTime (osc_feedback default_size mix
      (osc_feedback_period MidiScale (final_midi midi wheel bend_range mods) semitones tune)
      amount) =
     Inverse (MidiScale (midi + wheel * bend_range + 12 * sum_list mods + semitones + tune))"
    by (simp add: osc_feedback_def osc_feedback_period_def osc_feedback_frequency_def
        osc_feedback_midi_def osc_feedback_transposed_def final_midi_def bent_midi_def
        pitch_bend_def midi_mod_def midi_mod_sources_def PITCH_MOD_RANGE_def operator_defs)
  have 2: "kDelayTime (synthesis_osc_feedback mix
      (synthesis_osc_feedback_period MidiScale (synthesis_bent_midi midi wheel bend_range)
         semitones tune)
      amount) =
     Inverse (MidiScale (midi + wheel * bend_range + semitones + tune))"
    by (simp add: synthesis_osc_feedback_def synthesis_osc_feedback_period_def
        synthesis_osc_feedback_frequency_def synthesis_osc_feedback_midi_def
        synthesis_osc_feedback_transposed_def synthesis_bent_midi_def synthesis_pitch_bend_def
        operator_defs)
  have 3: "(x \<noteq> 0 \<longrightarrow> Inverse x = Finite (1 / x)) \<and> Inverse 0 = PlusInfinity"
    by (simp add: Inverse_def)
  have 4: "kWet (osc_feedback default_size mix period amount) = 1 / 2"
    "kWet (synthesis_osc_feedback mix period amount) = 1 / 2"
    "buffer_size (osc_feedback default_size mix period amount) = default_size"
    "buffer_size (synthesis_osc_feedback mix period amount) = 20000"
    by (simp_all add: osc_feedback_def synthesis_osc_feedback_def value_half_def
        MAX_FEEDBACK_SAMPLES_def)
  have 5: "\<not> fless (Finite (real (buffer_size d))) (Delay_period sample_rate d)"
    by (rule Delay_period_within_buffer)
  have 6: "fless (Finite (real (buffer_size d))) (fmul (kDelayTime d) (Finite sample_rate)) \<longrightarrow>
      Delay_period sample_rate d = Finite (real (buffer_size d))"
    "\<not> fless (Finite (real (buffer_size d))) (fmul (kDelayTime d) (Finite sample_rate)) \<longrightarrow>
      Delay_period sample_rate d = fmul (kDelayTime d) (Finite sample_rate)"
    by (simp_all add: Delay_period_def Let_def)
  have 7: "Delay_period sample_rate (synthesis_osc_feedback mix (Inverse 0) amount) = Finite 20000"
    "Delay_period sample_rate (osc_feedback default_size mix (Inverse 0) amount) =
     Finite (real default_size)"
    using assms
    by (simp_all add: Delay_period_def Let_def Inverse_def synthesis_osc_feedback_def
        osc_feedback_def MAX_FEEDBACK_SAMPLES_def)
  show ?thesis
    using 1 2 3 4 5 6 7 by blast
qed

theorem osc_feedback_delay_witness:
  "(0::real) < 44100 \<and>
   kDelayTime (osc_feedback 1024 0 (osc_feedback_period id (final_midi 60 0 2 [1 / 4]) (- 12) 1) 0)
     = Finite (1 / 52) \<and>
   kDelayTime (synthesis_osc_feedback 0
       (synthesis_osc_feedback_period id (synthesis_bent_midi 60 0 2) (- 12) 1) 0)
     = Finite (1 / 49) \<and>
   Delay_period 44100 (synthesis_osc_feedback 0 (Finite (1 / 49)) 0) = Finite 900 \<and>
   Delay_period 44100 (synthesis_osc_feedback 0 (Finite 1) 0) = Finite 20000 \<and>
   Delay_period 44100 (synthesis_osc_feedback 0 (Inverse 0) 0) = Finite 20000"
proof -
  have sr: "(0::real) < 44100" by simp
  note t = osc_feedback_delay [OF sr]
  from t [of 1024 0 id 60 0 2 "[1 / 4]" "- 12" 1 0 52]
  have 1: "kDelayTime (osc_feedback 1024 0 (osc_feedback_period id (final_midi 60 0 2 [1 / 4]) (- 12) 1) 0)
     = Finite (1 / 52)"
    by simp
  from t [of 1024 0 id 60 0 2 "[]" "- 12" 1 0 49]
  have 2: "kDelayTime (synthesis_osc_feedback 0
       (synthesis_osc_feedback_period id (synthesis_bent_midi 60 0 2) (- 12) 1) 0)
     = Finite (1 / 49)"
    by simp
  from t [where d = "synthesis_osc_feedback 0 (Finite (1 / 49)) 0"]
  have 3: "Delay_period 44100 (synthesis_osc_feedback 0 (Finite (1 / 49)) 0) = Finite 900"
    by (simp add: synthesis_osc_feedback_def MAX_FEEDBACK_SAMPLES_def)
  from t [where d = "synthesis_osc_feedback 0 (Finite 1) 0"]
  have 4: "Delay_period 44100 (synthesis_osc_feedback 0 (Finite 1) 0) = Finite 20000"
    by (simp add: synthesis_osc_feedback_def MAX_FEEDBACK_SAMPLES_def)
  from t [of _ 0 _ _ _ _ _ _ _ 0]
  have 5: "Delay_period 44100 (synthesis_osc_feedback 0 (Inverse 0) 0) = Finite 20000"
    by blast
  show ?thesis
    using sr 1 2 3 4 5 by simp
qed

text \<open>
  C4 as stated fails in src/twytch_voice_handler.cpp: the feedback pitch is taken from
  final_midi, so it follows the pitch modulation. For MIDI note 60, a resting pitch wheel,
  one modulation of 1/4 connected to the pitch accumulator, feedback transpose -12 and tune
  1, under the identity scale, the delay time is 1/52; the inverse of bent MIDI plus
  transpose plus tune is 1/49.
\<close>

theorem feedback_pitch_follows_pitch_modulation:
  "osc_feedback_period id (final_midi 60 0 2 [1 / 4]) (- 12) 1 = Finite (1 / 52) \<and>
   spec_feedback_period id (bent_midi 60 0 2) (- 12) 1 = Finite (1 / 49) \<and>
   osc_feedback_period id (final_midi 60 0 2 [1 / 4]) (- 12) 1 \<noteq>
     spec_feedback_period id (bent_midi 60 0 2) (- 12) 1"
  by (simp add: osc_feedback_period_def osc_feedback_frequency_def osc_feedback_midi_def
      osc_feedback_transposed_def final_midi_def bent_midi_def pitch_bend_def midi_mod_def
      midi_mod_sources_def PITCH_MOD_RANGE_def spec_feedback_period_def Inverse_def
      operator_defs)

text \<open>The operators on \<open>mopo_float\<close> agree with those on the finite numbers.\<close>

lemma foldl_fadd_Finite:
  "foldl fadd (Finite s) (map Finite xs) = Finite (s + sum_list xs)"
  by (induction xs arbitrary: s) (simp_all add: add.assoc)

lemma VariableAdd_float_Finite:
  "VariableAdd_float (map Finite xs) = Finite (VariableAdd xs)"
  by (simp add: VariableAdd_float_def VariableAdd_def foldl_fadd_Finite)

lemma Interpolate_float_Finite:
  "Interpolate_float (Finite a) (Finite b) (Finite t) = Finite (Interpolate a b t)"
  by (simp add: Interpolate_float_def Interpolate_def fsub_def)

lemma clamp_mix_cases:
  assumes "f \<noteq> NaN"
  shows "clamp_mix f =
     (if fless f (Finite 0) then Finite 0 else if fless (Finite 1) f then Finite 1 else f)"
  by (simp add: clamp_mix_def Clamp_def)




lemma controls_of_oscillators:
  "controls_of_oscillator ''osc 1'' = [''osc 1 waveform'']"
  "controls_of_oscillator ''osc 2'' = [''osc 2 waveform'', ''osc 2 transpose'', ''osc 2 tune'']"
  by (simp_all add: controls_of_oscillator_def createOscillators_registrations_def)

lemma processors_of_oscillators:
  "processors_of_oscillator ''oscillator1'' = [''oscillator1_frequency'']"
  "processors_of_oscillator ''oscillator2'' =
     [''oscillator2_transposed'', ''oscillator2_midi'', ''oscillator2_frequency'']"
  by (simp_all add: processors_of_oscillator_def createOscillators_registrations_def)

text \<open>
  C6, as amended: the shared pitch sum is the MIDI note plus pitch wheel times bend range
  (the product is registered by addGlobalProcessor) plus 12 times the sum of the pitch
  accumulator, and MidiScale, an exponential scale, converts it to a frequency. Both
  oscillators take this shared sum. Oscillator 2 adds its own transpose and fine-tune to it
  before the conversion, as the spec words it, which on an exponential scale multiplies the
  frequency by the ratio of a semitone to the power of transpose plus tune. Oscillator 1
  converts the shared sum as it is: its only control is its waveform.
\<close>

theorem oscillator_pitch:
  "final_midi midi wheel bend_range mods = midi + wheel * bend_range + 12 * sum_list mods \<and>
   pitch_bend wheel bend_range = wheel * bend_range \<and>
   GlobalProcessor ''pitch_bend'' \<in> set createOscillators_registrations \<and>
   oscillator1_frequency MidiScale (final_midi midi wheel bend_range mods) =
     MidiScale (midi + wheel * bend_range + 12 * sum_list mods) \<and>
   oscillator2_frequency MidiScale (final_midi midi wheel bend_range mods) semitones tune =
     MidiScale (midi + wheel * bend_range + 12 * sum_list mods + semitones + tune) \<and>
   oscillator2_frequency MidiScale shared semitones tune =
     spec_oscillator_frequency MidiScale shared semitones tune \<and>
   oscillator1_frequency (exponential_scale note0 ratio) (final_midi midi wheel bend_range mods) =
     note0 * ratio powr (midi + wheel * bend_range + 12 * sum_list mods) \<and>
   oscillator2_frequency (exponential_scale note0 ratio) shared semitones tune =
     oscillator1_frequency (exponential_scale note0 ratio) shared * ratio powr (semitones + tune) \<and>
   controls_of_oscillator ''osc 1'' = [''osc 1 waveform''] \<and>
   controls_of_oscillator ''osc 2'' = [''osc 2 waveform'', ''osc 2 transpose'', ''osc 2 tune'']"
proof -
  have "GlobalProcessor ''pitch_bend'' \<in> set createOscillators_registrations"
    by (simp add: createOscillators_registrations_def)
  moreover have "oscillator2_frequency (exponential_scale note0 ratio) shared semitones tune =
     oscillator1_frequency (exponential_scale note0 ratio) shared * ratio powr (semitones + tune)"
    by (simp add: oscillator1_frequency_def oscillator2_frequency_def oscillator2_midi_def
        oscillator2_transposed_def exponential_scale_def Add_def powr_add add.assoc)
  ultimately show ?thesis
    by (simp add: final_midi_def bent_midi_def pitch_bend_def midi_mod_def midi_mod_sources_def
        oscillator1_frequency_def oscillator2_frequency_def oscillator2_midi_def
        oscillator2_transposed_def spec_oscillator_frequency_def PITCH_MOD_RANGE_def
        exponential_scale_def controls_of_oscillators Add_def Multiply_def VariableAdd_def)
qed

text \<open>
  C6 as stated fails for oscillator 1: it has no transpose and no fine-tune of its own. The
  controls createOscillators registers for it are its waveform alone and the only processor
  on its pitch path is oscillator1_frequency, plugged with final_midi; oscillator 2 has a
  transpose and a tune control and two Add processors before its frequency. At the shared
  sum 60 and the initial values of the source (transpose -12, tune 0.08), under the identity
  scale, oscillator 2 is at 48.08 and oscillator 1 at 60.
\<close>

theorem oscillator1_has_no_transpose_or_tune:
  "controls_of_oscillator ''osc 1'' = [''osc 1 waveform''] \<and>
   controls_of_oscillator ''osc 2'' = [''osc 2 waveform'', ''osc 2 transpose'', ''osc 2 tune''] \<and>
   processors_of_oscillator ''oscillator1'' = [''oscillator1_frequency''] \<and>
   processors_of_oscillator ''oscillator2'' =
     [''oscillator2_transposed'', ''oscillator2_midi'', ''oscillator2_frequency''] \<and>
   oscillator2_frequency id 60 (- 12) (2 / 25) = 48 + 2 / 25 \<and>
   oscillator1_frequency id 60 = 60"
  by (simp add: controls_of_oscillators processors_of_oscillators oscillator1_frequency_def
      oscillator2_frequency_def oscillator2_midi_def oscillator2_transposed_def Add_def)

text \<open>
  C7: the cutoff is the sum, in MIDI notes, of the base cutoff, the keytrack term (the current
  note minus the centre MIDI_SIZE / 2, times the keytrack amount), the filter envelope times
  its depth, and the cutoff accumulator times MIDI_SIZE / 2; MidiScale, the scale of the
  oscillators, converts that sum to the frequency.
\<close>

theorem cutoff_in_midi_space:
  "frequency_cutoff MidiScale
     (midi_cutoff_modulated MIDI_SIZE
        (midi_cutoff base_cutoff (note_from_center MIDI_SIZE current_note) keytrack_amount
           filter_envelope filter_envelope_depth) mods) =
   MidiScale (base_cutoff + (current_note - real (MIDI_SIZE div 2)) * keytrack_amount
     + filter_envelope * filter_envelope_depth + sum_list mods * real (MIDI_SIZE div 2)) \<and>
   frequency_cutoff MidiScale x = oscillator1_frequency MidiScale x"
  by (simp add: frequency_cutoff_def midi_cutoff_modulated_def midi_cutoff_def
      keytracked_cutoff_def current_keytrack_def scaled_envelope_def note_from_center_def
      center_adjust_def cutoff_modulation_scaled_def cutoff_mod_sources_def cutoff_mod_scale_def
      oscillator1_frequency_def operator_defs)

text \<open>
  What the resonance control drives, in both source files. In src/twytch_voice_handler.cpp
  the resonance input of the filter follows the accumulator (the control plus the connected
  modulation) while the gain input follows the Value of the control alone
  (\<^verbatim>\<open>decibals->plug(resonance, Interpolate::kFractional)\<close>); in
  src/synthesis/twytch_voice_handler.cpp both follow the one processor that
  createPolyModControl returns.
\<close>

lemma resonance_and_gain:
  "kResonance (filter_inputs MidiScale ResonanceScale MagnitudeScale audio cutoff resonance mods) =
     ResonanceScale (resonance + sum_list mods) \<and>
   kGain (filter_inputs MidiScale ResonanceScale MagnitudeScale audio cutoff resonance mods) =
     MagnitudeScale (- 24 + resonance * (24 - (- 24))) \<and>
   kResonance (synthesis_filter_inputs ResonanceScale MagnitudeScale audio frequency resonance) =
     ResonanceScale resonance \<and>
   kGain (synthesis_filter_inputs ResonanceScale MagnitudeScale audio frequency resonance) =
     MagnitudeScale (- 24 + resonance * (24 - (- 24)))"
  by (simp add: filter_inputs_def synthesis_filter_inputs_def final_resonance_def
      resonance_sources_def final_gain_def decibals_def synthesis_final_resonance_def
      synthesis_final_gain_def synthesis_decibals_def MIN_GAIN_DB_def MAX_GAIN_DB_def
      operator_defs)

text \<open>
  C8: one modulated resonance value drives both the resonance input (through ResonanceScale)
  and the gain input (interpolated between -24 dB and +24 dB, then through MagnitudeScale) of
  the filter. In src/twytch_voice_handler.cpp the gain path misses the modulation: with the
  control at 1/2 and one connected modulation of value 1/4 the resonance input is the scale
  of 3/4, but the gain input is the magnitude of 0 dB, where the modulated value 3/4 gives
  12 dB, as it does in src/synthesis/twytch_voice_handler.cpp.
\<close>

theorem gain_ignores_resonance_modulation:
  "kResonance (filter_inputs id id id 0 0 (1 / 2) [1 / 4]) = 3 / 4 \<and>
   kGain (filter_inputs id id id 0 0 (1 / 2) [1 / 4]) = 0 \<and>
   Interpolate MIN_GAIN_DB MAX_GAIN_DB (resonance_sources (1 / 2) [1 / 4]) = 12 \<and>
   kGain (synthesis_filter_inputs id id 0 0 (3 / 4)) = 12"
  by (simp add: filter_inputs_def synthesis_filter_inputs_def final_resonance_def
      resonance_sources_def final_gain_def decibals_def synthesis_final_resonance_def
      synthesis_final_gain_def synthesis_decibals_def MIN_GAIN_DB_def MAX_GAIN_DB_def
      operator_defs)

end
